theory Spec2Isabelle
  imports Complex_Main
begin

section \<open>Python values used by the smooth-inversion script\<close>

text \<open>
  The script \<^verbatim>\<open>DC-1d-smooth-inversion-code.ipynb\<close> reads three columns of a
  CSV file into pandas Series, computes an index array with numpy and builds one
  SimPEG source per distinct AB/2 value. Floating-point numbers are modelled as
  reals (no NaN, no rounding); indices are natural numbers, since every index the
  script computes comes from \<^verbatim>\<open>np.unique\<close> or \<^verbatim>\<open>len\<close>.
\<close>

datatype py_error = KeyError | IndexError



text \<open>\<^verbatim>\<open>k[ii]\<close> on a numpy array with a non-negative index: IndexError out of range.\<close>

definition array_getitem :: "'a list \<Rightarrow> nat \<Rightarrow> py_error + 'a" where
  "array_getitem xs i = (if i < length xs then Inr (xs ! i) else Inl IndexError)"

text \<open>
  \<^verbatim>\<open>series[i]\<close> on a pandas Series with the default RangeIndex: a label lookup,
  KeyError when the label is not a row of the Series.
\<close>

definition series_getitem :: "'a list \<Rightarrow> nat \<Rightarrow> py_error + 'a" where
  "series_getitem xs i = (if i < length xs then Inr (xs ! i) else Inl KeyError)"

text \<open>
  \<^verbatim>\<open>series[a:b]\<close> with non-negative bounds: a positional slice. Both bounds are
  clamped to the length, so no bound raises.
\<close>

definition series_slice :: "'a list \<Rightarrow> nat \<Rightarrow> nat \<Rightarrow> 'a list" where
  "series_slice xs a b =
     (let n = length xs; lo = min a n; hi = min b n
      in if lo < hi then take (hi - lo) (drop lo xs) else [])"

text \<open>The position of the first occurrence of a value (the length when absent).\<close>

definition first_index :: "'a list \<Rightarrow> 'a \<Rightarrow> nat" where
  "first_index xs v = length (takeWhile (\<lambda>x. x \<noteq> v) xs)"

text \<open>
  \<^verbatim>\<open>np.unique(xs, return_index=True)\<close>, as numpy documents it: the sorted distinct
  values, and for each of them the index of its first occurrence in \<open>xs\<close>.
\<close>

definition np_unique :: "real list \<Rightarrow> real list \<times> nat list" where
  "np_unique xs = (let u = sort (remdups xs) in (u, map (first_index xs) u))"

section \<open>Survey construction\<close>

text \<open>
  The SimPEG objects the loop constructs are kept as free constructors:
  \<^verbatim>\<open>dc.receivers.Dipole(M_locations, N_locations)\<close>,
  \<^verbatim>\<open>dc.sources.Dipole(receiver_list, A_location, B_location)\<close> and
  \<^verbatim>\<open>dc.Survey(source_list)\<close>. A location is a row \<open>(x, 0, 0)\<close>.
\<close>

type_synonym location = "real \<times> real \<times> real"

datatype receiver = Receivers_Dipole "location list" "location list"

datatype source = Sources_Dipole "receiver list" location location

datatype survey = Survey "source list"

text \<open>
  \<^verbatim>\<open>np.c_[col, np.zeros((np.shape(col)[0], 2))]\<close>: every entry of the column becomes
  a row with two zero coordinates appended.
\<close>

definition with_zero_columns :: "real list \<Rightarrow> location list" where
  "with_zero_columns col = map (\<lambda>x. (x, 0, 0)) col"

text \<open>
  The index array of the script:
  \<^verbatim>\<open>
  unique_tx, k = np.unique(half_AB_separations, return_index=True)
  n_sources = len(k)
  k = np.sort(k)
  k = np.r_[k, len(dobs)+1]
  \<close>
\<close>

definition n_sources :: "real list \<Rightarrow> nat" where
  "n_sources half_AB_separations = length (snd (np_unique half_AB_separations))"

definition slice_bounds :: "real list \<Rightarrow> real list \<Rightarrow> nat list" where
  "slice_bounds half_AB_separations dobs =
     sort (snd (np_unique half_AB_separations)) @ [length dobs + 1]"

text \<open>
  One pass of the loop body for the source \<open>ii\<close>:
  \<^verbatim>\<open>
  M_locations = -half_MN_separations[k[ii]:k[ii+1]]
  M_locations = np.c_[M_locations, np.zeros((np.shape(M_locations)[0], 2))]
  N_locations = half_MN_separations[k[ii]:k[ii+1]]
  N_locations = np.c_[N_locations, np.zeros((np.shape(N_locations)[0], 2))]
  receiver_list = [dc.receivers.Dipole(M_locations, N_locations)]
  A_location = np.r_[-half_AB_separations[k[ii]], 0., 0.]
  B_location = np.r_[half_AB_separations[k[ii]], 0., 0.]
  source_list.append(dc.sources.Dipole(receiver_list, A_location, B_location))
  \<close>
  Every subscript that can raise is a branch.
\<close>

definition make_source ::
  "real list \<Rightarrow> real list \<Rightarrow> nat list \<Rightarrow> nat \<Rightarrow> py_error + source" where
  "make_source half_AB_separations half_MN_separations k ii =
     (case array_getitem k ii of
        Inl e \<Rightarrow> Inl e
      | Inr lo \<Rightarrow>
          (case array_getitem k (ii + 1) of
             Inl e \<Rightarrow> Inl e
           | Inr hi \<Rightarrow>
               (let M_locations =
                      with_zero_columns (map uminus (series_slice half_MN_separations lo hi));
                    N_locations = with_zero_columns (series_slice half_MN_separations lo hi);
                    receiver_list = [Receivers_Dipole M_locations N_locations]
                in (case series_getitem half_AB_separations lo of
                      Inl e \<Rightarrow> Inl e
                    | Inr a \<Rightarrow> Inr (Sources_Dipole receiver_list (- a, 0, 0) (a, 0, 0))))))"

text \<open>\<^verbatim>\<open>for ii in range(0, n_sources)\<close>: the first error ends the run.\<close>

fun source_loop ::
  "real list \<Rightarrow> real list \<Rightarrow> nat list \<Rightarrow> nat list \<Rightarrow> py_error + source list" where
  "source_loop half_AB_separations half_MN_separations k [] = Inr []"
| "source_loop half_AB_separations half_MN_separations k (ii # rest) =
     (case make_source half_AB_separations half_MN_separations k ii of
        Inl e \<Rightarrow> Inl e
      | Inr s \<Rightarrow>
          (case source_loop half_AB_separations half_MN_separations k rest of
             Inl e \<Rightarrow> Inl e
           | Inr source_list \<Rightarrow> Inr (s # source_list)))"

definition define_survey :: "real list \<Rightarrow> real list \<Rightarrow> real list \<Rightarrow> py_error + survey" where
  "define_survey half_AB_separations half_MN_separations dobs =
     (case source_loop half_AB_separations half_MN_separations
             (slice_bounds half_AB_separations dobs)
             [0 ..< n_sources half_AB_separations] of
        Inl e \<Rightarrow> Inl e
      | Inr source_list \<Rightarrow> Inr (Survey source_list))"

text \<open>
  The rows of the data file in which equal AB/2 values are contiguous: dropping
  adjacent repetitions leaves no value twice.
\<close>

definition contiguous :: "real list \<Rightarrow> bool" where
  "contiguous xs = distinct (remdups_adj xs)"

text \<open>
  The rows \<^verbatim>\<open>k[ii]:k[ii+1]\<close> of a column, and the source the loop body builds from
  them when no subscript raises.
\<close>

definition receiver_block :: "'a list \<Rightarrow> nat list \<Rightarrow> nat \<Rightarrow> 'a list" where
  "receiver_block xs k ii = series_slice xs (k ! ii) (k ! (ii + 1))"

definition expected_source :: "real list \<Rightarrow> real list \<Rightarrow> nat list \<Rightarrow> nat \<Rightarrow> source" where
  "expected_source half_AB_separations half_MN_separations k ii =
     Sources_Dipole
       [Receivers_Dipole
          (with_zero_columns (map uminus (receiver_block half_MN_separations k ii)))
          (with_zero_columns (receiver_block half_MN_separations k ii))]
       (- (half_AB_separations ! (k ! ii)), 0, 0)
       (half_AB_separations ! (k ! ii), 0, 0)"

section \<open>Uncertainties\<close>


section \<open>The code cells of the notebooks\<close>

text \<open>
  The repository is five Jupyter notebooks: the three files under
  \<^verbatim>\<open>notebooks/\<close> and the two notebook documents held by \<^verbatim>\<open>unnamed/part_000\<close>.
  What a notebook imports, constructs and calls is a property of its code cells,
  so each code cell is kept as the list of its statements, in the shape of
  Python's own syntax tree (\<^verbatim>\<open>ast.Name\<close>, \<^verbatim>\<open>ast.Call\<close>, ...).
  Numeric literals, \<^verbatim>\<open>None\<close>, \<^verbatim>\<open>True\<close> and \<^verbatim>\<open>False\<close> keep their source text; a
  keyword argument \<^verbatim>\<open>name=value\<close> is an argument \<open>Keyword name value\<close>; a
  comparison is a \<open>BinOp\<close> with the comparison as its operator. Markdown cells
  and comments are not code and are left out. The language has function and class
  definitions, so that their absence from the notebooks is a fact about the
  notebooks and not about the datatype.
\<close>

datatype expr =
    Name string
  | Constant string
  | Str string
  | Attribute expr string
  | Call expr "expr list"
  | Keyword string expr
  | Subscript expr expr
  | Slice expr expr
  | BinOp expr string expr
  | UnaryOp string expr
  | ListE "expr list"
  | TupleE "expr list"
  | DictE "expr list"
  | DictItem expr expr

text \<open>
  \<open>Import m a\<close> is \<^verbatim>\<open>import m as a\<close> (\<open>a = m\<close> without an alias);
  \<open>ImportFrom m [(n, a), ...]\<close> is \<^verbatim>\<open>from m import n as a, ...\<close>;
  \<open>Magic\<close> is an IPython line magic (\<^verbatim>\<open>%matplotlib inline\<close>).
\<close>

datatype stmt =
    Import string string
  | ImportFrom string "(string \<times> string) list"
  | Assign expr expr
  | Expr expr
  | ForS expr expr "stmt list"
  | IfS expr "stmt list" "stmt list"
  | Magic string
  | FunctionDef string "string list" "stmt list"
  | ClassDef string "expr list" "stmt list"

record notebook =
  nb_path :: string
  nb_title :: string
  nb_cells :: "stmt list list"

section \<open>Reading a notebook\<close>

text \<open>
  The expressions inside an expression (itself included) that satisfy \<open>P\<close>,
  outermost first.
\<close>

primrec select :: "(expr \<Rightarrow> bool) \<Rightarrow> expr \<Rightarrow> expr list" where
  "select P (Name x) = (if P (Name x) then [Name x] else [])"
| "select P (Constant c) = (if P (Constant c) then [Constant c] else [])"
| "select P (Str s) = (if P (Str s) then [Str s] else [])"
| "select P (Attribute e a) = (if P (Attribute e a) then [Attribute e a] else []) @ select P e"
| "select P (Call f args) =
     (if P (Call f args) then [Call f args] else []) @ select P f @ concat (map (select P) args)"
| "select P (Keyword k e) = (if P (Keyword k e) then [Keyword k e] else []) @ select P e"
| "select P (Subscript e i) =
     (if P (Subscript e i) then [Subscript e i] else []) @ select P e @ select P i"
| "select P (Slice a b) = (if P (Slice a b) then [Slice a b] else []) @ select P a @ select P b"
| "select P (BinOp a opr b) =
     (if P (BinOp a opr b) then [BinOp a opr b] else []) @ select P a @ select P b"
| "select P (UnaryOp opr a) = (if P (UnaryOp opr a) then [UnaryOp opr a] else []) @ select P a"
| "select P (ListE es) = (if P (ListE es) then [ListE es] else []) @ concat (map (select P) es)"
| "select P (TupleE es) = (if P (TupleE es) then [TupleE es] else []) @ concat (map (select P) es)"
| "select P (DictE es) = (if P (DictE es) then [DictE es] else []) @ concat (map (select P) es)"
| "select P (DictItem a b) =
     (if P (DictItem a b) then [DictItem a b] else []) @ select P a @ select P b"

text \<open>A statement with the statements of its blocks.\<close>

primrec sub_stmts :: "stmt \<Rightarrow> stmt list" where
  "sub_stmts (Import m a) = [Import m a]"
| "sub_stmts (ImportFrom m ns) = [ImportFrom m ns]"
| "sub_stmts (Assign t v) = [Assign t v]"
| "sub_stmts (Expr e) = [Expr e]"
| "sub_stmts (ForS t e body) = ForS t e body # concat (map sub_stmts body)"
| "sub_stmts (IfS c yes no) =
     IfS c yes no # concat (map sub_stmts yes) @ concat (map sub_stmts no)"
| "sub_stmts (Magic m) = [Magic m]"
| "sub_stmts (FunctionDef f ps body) = FunctionDef f ps body # concat (map sub_stmts body)"
| "sub_stmts (ClassDef c bases body) = ClassDef c bases body # concat (map sub_stmts body)"

definition statements :: "notebook \<Rightarrow> stmt list" where
  "statements nb = concat (map sub_stmts (concat (nb_cells nb)))"

text \<open>The expressions a statement holds itself (those of its blocks belong to the blocks).\<close>

fun stmt_exprs :: "stmt \<Rightarrow> expr list" where
  "stmt_exprs (Assign t v) = [t, v]"
| "stmt_exprs (Expr e) = [e]"
| "stmt_exprs (ForS t e body) = [t, e]"
| "stmt_exprs (IfS c yes no) = [c]"
| "stmt_exprs (ClassDef c bases body) = bases"
| "stmt_exprs s = []"

definition exprs_where :: "(expr \<Rightarrow> bool) \<Rightarrow> notebook \<Rightarrow> expr list" where
  "exprs_where P nb = concat (map (select P) (concat (map stmt_exprs (statements nb))))"

text \<open>The imports of a notebook: the module and the name the import binds.\<close>

fun stmt_imports :: "stmt \<Rightarrow> (string \<times> string) list" where
  "stmt_imports (Import m a) = [(m, a)]"
| "stmt_imports (ImportFrom m ns) = map (\<lambda>na. (m, snd na)) ns"
| "stmt_imports s = []"

definition nb_imports :: "notebook \<Rightarrow> (string \<times> string) list" where
  "nb_imports nb = concat (map stmt_imports (statements nb))"

text \<open>The top-level package of a dotted module name.\<close>

definition top_package :: "string \<Rightarrow> string" where
  "top_package m = takeWhile (\<lambda>c. c \<noteq> CHR ''.'') m"

text \<open>The module a name is imported from (the last import of the name counts).\<close>

definition module_of :: "(string \<times> string) list \<Rightarrow> string \<Rightarrow> string option" where
  "module_of imps x = map_option fst (find (\<lambda>ma. snd ma = x) (rev imps))"

text \<open>
  The name an expression starts from (\<open>dc\<close> in \<^verbatim>\<open>dc.receivers.Dipole\<close>), its
  dotted form and its last component.
\<close>

fun root_name :: "expr \<Rightarrow> string option" where
  "root_name (Name x) = Some x"
| "root_name (Attribute e a) = root_name e"
| "root_name (Call f args) = root_name f"
| "root_name (Subscript e i) = root_name e"
| "root_name e = None"

fun dotted :: "expr \<Rightarrow> string" where
  "dotted (Name x) = x"
| "dotted (Attribute e a) = dotted e @ ''.'' @ a"
| "dotted (Call f args) = dotted f @ ''()''"
| "dotted (Subscript e i) = dotted e @ ''[]''"
| "dotted e = []"


text \<open>The calls of a notebook, and what they call.\<close>

fun call_target :: "expr \<Rightarrow> expr list" where
  "call_target (Call f args) = [f]"
| "call_target e = []"

definition calls_where :: "(expr \<Rightarrow> bool) \<Rightarrow> notebook \<Rightarrow> expr list" where
  "calls_where Q nb = exprs_where (\<lambda>e. list_ex Q (call_target e)) nb"

definition calls :: "notebook \<Rightarrow> expr list" where
  "calls nb = calls_where (\<lambda>f. True) nb"

definition called :: "notebook \<Rightarrow> expr list" where
  "called nb = concat (map call_target (calls nb))"


text \<open>
  The top-level package a called expression comes from: that of the import that
  binds the name it starts from, if an import binds it.
\<close>

definition package_of :: "(string \<times> string) list \<Rightarrow> expr \<Rightarrow> string option" where
  "package_of imps f =
     (case root_name f of
        None \<Rightarrow> None
      | Some x \<Rightarrow> map_option top_package (module_of imps x))"

definition from_packages :: "(string \<times> string) list \<Rightarrow> string list \<Rightarrow> expr \<Rightarrow> bool" where
  "from_packages imps pkgs f =
     (case package_of imps f of None \<Rightarrow> False | Some p \<Rightarrow> p \<in> set pkgs)"

text \<open>The targets of the calls into the given packages.\<close>

definition library_calls :: "notebook \<Rightarrow> string list \<Rightarrow> expr list" where
  "library_calls nb pkgs =
     concat (map call_target (calls_where (from_packages (nb_imports nb) pkgs) nb))"

text \<open>
  A notebook is wired from apps when it imports from the \<^verbatim>\<open>utils\<close> package and
  calls nothing of a numerical library itself.
\<close>

definition numerical_libraries :: "string list" where
  "numerical_libraries = [''SimPEG'', ''discretize'', ''numpy'']"

definition utils_imports :: "notebook \<Rightarrow> (string \<times> string) list" where
  "utils_imports nb = filter (\<lambda>ma. top_package (fst ma) = ''utils'') (nb_imports nb)"

definition app_wired :: "notebook \<Rightarrow> bool" where
  "app_wired nb \<longleftrightarrow> utils_imports nb \<noteq> [] \<and> library_calls nb numerical_libraries = []"


















section \<open>The notebooks\<close>

text \<open>
  Each notebook is the list of its code cells in the order of the file, a cell being
  the list of its statements; an empty code cell is an empty list.
\<close>

text \<open>The first notebook document of \<^verbatim>\<open>unnamed/part_000\<close>, the parametric inversion.\<close>

definition parametric_app_nb :: notebook where
  "parametric_app_nb =
   \<lparr>nb_path = ''unnamed/part_000'',
    nb_title = ''Parametric 1D DC Resistivity Inversion'',
    nb_cells =
    [[ImportFrom ''utils.DCResistivity'' [(''DC1D3LayerApp'', ''DC1D3LayerApp'')],
      Assign (Name ''dc_app'') (Call (Name ''DC1D3LayerApp'') [])],
     [Expr (Call (Attribute (Name ''dc_app'') ''interact_load_obs'') [])],
     [Expr (Call (Attribute (Name ''dc_app'') ''interact_1d_layer'') [])],
     [Expr (Call (Attribute (Name ''dc_app'') ''interact_run_inversion'') [])],
     [Expr (Call (Attribute (Name ''dc_app'') ''interact_plot_inversion_results'') [])]]\<rparr>"

text \<open>The second notebook document of \<^verbatim>\<open>unnamed/part_000\<close>, the smooth inversion with the app.\<close>

definition smooth_app_nb :: notebook where
  "smooth_app_nb =
   \<lparr>nb_path = ''unnamed/part_000'',
    nb_title = ''Smooth 1D DC Resistivity Inversion'',
    nb_cells =
    [[ImportFrom ''utils.DCResistivity'' [(''DC1DInversionApp'', ''DC1DInversionApp'')],
      Assign (Name ''dc_app'') (Call (Name ''DC1DInversionApp'') [])],
     [Expr (Call (Attribute (Name ''dc_app'') ''interact_load_obs'') [])],
     [Expr (Call (Attribute (Name ''dc_app'') ''interact_plot_obs_data'') [])],
     [Expr (Call (Attribute (Name ''dc_app'') ''interact_set_mesh'') [])],
     [Expr (Call (Attribute (Name ''dc_app'') ''interact_set_uncertainty'') [])],
     [Expr (Call (Attribute (Name ''dc_app'') ''interact_run_inversion'') [])],
     [Expr (Call (Attribute (Name ''dc_app'') ''interact_plot_inversion_results'') [])],
     [Expr (Call (Attribute (Name ''dc_app'') ''interact_run_doi'') [])],
     [Expr (Call (Attribute (Name ''dc_app'') ''interact_plot_doi_results'') [])],
     []]\<rparr>"

text \<open>\<^verbatim>\<open>notebooks/DC-1d-smooth-inversion-code.ipynb\<close>, the smooth inversion written out as a script.\<close>

definition smooth_inversion_code_nb :: notebook where
  "smooth_inversion_code_nb =
   \<lparr>nb_path = ''notebooks/DC-1d-smooth-inversion-code.ipynb'',
    nb_title = ''DC Resistivity: 1D Resistivity Inversion'',
    nb_cells =
    [[Import ''os'' ''os'',
      Import ''numpy'' ''np'',
      Import ''matplotlib'' ''mpl'',
      Import ''matplotlib.pyplot'' ''plt'',
      Import ''pandas'' ''pd'',
      ImportFrom ''discretize'' [(''TensorMesh'', ''TensorMesh'')],
      ImportFrom ''SimPEG''
        [(''maps'', ''maps''),
         (''data'', ''data''),
         (''data_misfit'', ''data_misfit''),
         (''regularization'', ''regularization''),
         (''optimization'', ''optimization''),
         (''inverse_problem'', ''inverse_problem''),
         (''inversion'', ''inversion''),
         (''directives'', ''directives'')],
      ImportFrom ''SimPEG.electromagnetics.static'' [(''resistivity'', ''dc'')],
      ImportFrom ''SimPEG.electromagnetics.static.utils.StaticUtils''
        [(''plot_layer'', ''plot_layer'')],
      ImportFrom ''SimPEG.utils'' [(''mkvc'', ''mkvc'')],
      Expr
        (Call (Attribute (Attribute (Name ''mpl'') ''rcParams'') ''update'')
           [DictE [DictItem (Str ''font.size'') (Constant ''14'')]])],
     [Assign (Name ''data_filename'') (Str ''./assets/Mawlamyine_data_locations_3.csv''),
      Assign (Name ''half_AB_column'') (Str ''AB/2 (m)''),
      Assign (Name ''half_MN_column'') (Str ''MN/2 (m)''),
      Assign (Name ''apparent_resistivity_column'') (Str ''App. Res. (Ohm m)''),
      Assign (Name ''uncertainty_column'') (Constant ''None''),
      Assign (Name ''uncertainty_floor'') (Constant ''5.''),
      Assign (Name ''uncertainty_percent'') (Constant ''5.''),
      Assign (Name ''chi_factor'') (Constant ''1.0''),
      Assign (Name ''layer_thicknesses'')
        (BinOp (Constant ''5'') ''*''
           (BinOp (Constant ''1.1'') ''**''
              (Call (Attribute (Name ''np'') ''arange'') [Constant ''21'']))),
      Assign (Name ''halfspace_resistivity'') (Constant ''300.'')],
     [Assign (Name ''df'')
        (Call (Attribute (Name ''pd'') ''read_csv'') [Name ''data_filename'']),
      Assign (Name ''half_AB_separations'') (Subscript (Name ''df'') (Name ''half_AB_column'')),
      Assign (Name ''half_MN_separations'') (Subscript (Name ''df'') (Name ''half_MN_column'')),
      Assign (Name ''dobs'')
        (Attribute (Subscript (Name ''df'') (Name ''apparent_resistivity_column'')) ''values''),
      Assign (TupleE [Name ''unique_tx'', Name ''k''])
        (Call (Attribute (Name ''np'') ''unique'')
           [Name ''half_AB_separations'', Keyword ''return_index'' (Constant ''True'')]),
      Assign (Name ''n_sources'') (Call (Name ''len'') [Name ''k'']),
      Assign (Name ''k'') (Call (Attribute (Name ''np'') ''sort'') [Name ''k'']),
      Assign (Name ''k'')
        (Subscript (Attribute (Name ''np'') ''r_'')
           (TupleE
              [Name ''k'',
               BinOp (Call (Name ''len'') [Name ''dobs'']) ''+'' (Constant ''1'')])),
      Assign (Name ''source_list'') (ListE []),
      ForS (Name ''ii'') (Call (Name ''range'') [Constant ''0'', Name ''n_sources''])
        [Assign (Name ''M_locations'')
           (UnaryOp ''-''
              (Subscript (Name ''half_MN_separations'')
                 (Slice (Subscript (Name ''k'') (Name ''ii''))
                    (Subscript (Name ''k'') (BinOp (Name ''ii'') ''+'' (Constant ''1'')))))),
         Assign (Name ''M_locations'')
           (Subscript (Attribute (Name ''np'') ''c_'')
              (TupleE
                 [Name ''M_locations'',
                  Call (Attribute (Name ''np'') ''zeros'')
                    [TupleE
                       [Subscript
                          (Call (Attribute (Name ''np'') ''shape'')
                             [Name ''M_locations''])
                          (Constant ''0''),
                        Constant ''2'']]])),
         Assign (Name ''N_locations'')
           (Subscript (Name ''half_MN_separations'')
              (Slice (Subscript (Name ''k'') (Name ''ii''))
                 (Subscript (Name ''k'') (BinOp (Name ''ii'') ''+'' (Constant ''1''))))),
         Assign (Name ''N_locations'')
           (Subscript (Attribute (Name ''np'') ''c_'')
              (TupleE
                 [Name ''N_locations'',
                  Call (Attribute (Name ''np'') ''zeros'')
                    [TupleE
                       [Subscript
                          (Call (Attribute (Name ''np'') ''shape'')
                             [Name ''N_locations''])
                          (Constant ''0''),
                        Constant ''2'']]])),
         Assign (Name ''receiver_list'')
           (ListE
              [Call (Attribute (Attribute (Name ''dc'') ''receivers'') ''Dipole'')
                 [Name ''M_locations'', Name ''N_locations'']]),
         Assign (Name ''A_location'')
           (Subscript (Attribute (Name ''np'') ''r_'')
              (TupleE
                 [UnaryOp ''-''
                    (Subscript (Name ''half_AB_separations'')
                       (Subscript (Name ''k'') (Name ''ii''))),
                  Constant ''0.'',
                  Constant ''0.''])),
         Assign (Name ''B_location'')
           (Subscript (Attribute (Name ''np'') ''r_'')
              (TupleE
                 [Subscript (Name ''half_AB_separations'')
                    (Subscript (Name ''k'') (Name ''ii'')),
                  Constant ''0.'',
                  Constant ''0.''])),
         Expr
           (Call (Attribute (Name ''source_list'') ''append'')
              [Call (Attribute (Attribute (Name ''dc'') ''sources'') ''Dipole'')
                 [Name ''receiver_list'', Name ''A_location'', Name ''B_location'']])],
      Assign (Name ''survey'')
        (Call (Attribute (Name ''dc'') ''Survey'') [Name ''source_list'']),
      Expr (Call (Attribute (Name ''survey'') ''getABMN_locations'') []),
      Assign (Name ''electrode_separations'')
        (Call (Attribute (Name ''np'') ''sqrt'')
           [Call (Attribute (Name ''np'') ''sum'')
              [BinOp
                 (BinOp (Attribute (Name ''survey'') ''m_locations'') ''-''
                    (Attribute (Name ''survey'') ''n_locations''))
                 ''**''
                 (Constant ''2''),
               Keyword ''axis'' (Constant ''1'')]]),
      Assign (TupleE [Name ''fig'', Name ''ax''])
        (Call (Attribute (Name ''plt'') ''subplots'')
           [Constant ''1'',
            Constant ''1'',
            Keyword ''figsize'' (TupleE [Constant ''11'', Constant ''5''])]),
      Expr
        (Call (Attribute (Name ''ax'') ''loglog'')
           [Name ''half_AB_separations'',
            Name ''dobs'',
            Str ''b'',
            Keyword ''lw'' (Constant ''2'')]),
      Expr (Call (Attribute (Name ''ax'') ''set_xlabel'') [Str ''AB/2 (m)'']),
      Expr
        (Call (Attribute (Name ''ax'') ''set_ylabel'')
           [Str (''Apparent Resistivity ($'' @ CHR 0x5C # ''Omega m$)'')]),
      Expr
        (Call (Attribute (Name ''ax'') ''grid'')
           [Constant ''True'',
            Keyword ''which'' (Str ''both''),
            Keyword ''ls'' (Str ''--''),
            Keyword ''c'' (Str ''gray'')])],
     [IfS (BinOp (Name ''uncertainty_column'') ''is not'' (Constant ''None''))
        [Assign (Name ''uncertainties'')
           (Attribute (Subscript (Name ''df'') (Name ''uncertainty_column'')) ''values'')]
        [Assign (Name ''uncertainties'')
           (BinOp (Name ''uncertainty_floor'') ''+''
              (BinOp (BinOp (Constant ''0.01'') ''*'' (Name ''uncertainty_percent'')) ''*''
                 (Call (Attribute (Name ''np'') ''abs'') [Name ''dobs''])))]],
     [Assign (Name ''data_object'')
        (Call (Attribute (Name ''data'') ''Data'')
           [Name ''survey'',
            Keyword ''dobs'' (Name ''dobs''),
            Keyword ''uncertainty'' (Name ''uncertainties'')])],
     [Assign (Name ''mesh'')
        (Call (Name ''TensorMesh'')
           [ListE
              [Subscript (Attribute (Name ''np'') ''r_'')
                 (TupleE
                    [Name ''layer_thicknesses'',
                     Subscript (Name ''layer_thicknesses'')
                       (UnaryOp ''-'' (Constant ''1''))])],
            Str ''0'']),
      Assign (Name ''starting_model'')
        (BinOp (Call (Attribute (Name ''np'') ''log'') [Name ''halfspace_resistivity'']) ''*''
           (Call (Attribute (Name ''np'') ''ones'') [Attribute (Name ''mesh'') ''nC''])),
      Assign (Name ''model_map'')
        (BinOp (Call (Attribute (Name ''maps'') ''IdentityMap'') [Name ''mesh'']) ''*''
           (Call (Attribute (Name ''maps'') ''ExpMap'') []))],
     [Assign (Name ''simulation'')
        (Call (Attribute (Attribute (Name ''dc'') ''simulation_1d'') ''DCSimulation_1D'')
           [Keyword ''survey'' (Name ''survey''),
            Keyword ''rhoMap'' (Name ''model_map''),
            Keyword ''thicknesses'' (Name ''layer_thicknesses''),
            Keyword ''data_type'' (Str ''apparent_resistivity'')])],
     [Assign (Name ''dmis'')
        (Call (Attribute (Name ''data_misfit'') ''L2DataMisfit'')
           [Keyword ''simulation'' (Name ''simulation''),
            Keyword ''data'' (Name ''data_object'')]),
      Assign (Name ''reg'')
        (Call (Attribute (Name ''regularization'') ''Simple'')
           [Name ''mesh'',
            Keyword ''alpha_s'' (Constant ''1e-3''),
            Keyword ''alpha_x'' (Constant ''1.''),
            Keyword ''mref'' (Name ''starting_model'')]),
      Assign (Name ''opt'')
        (Call (Attribute (Name ''optimization'') ''InexactGaussNewton'')
           [Keyword ''maxIter'' (Constant ''30''),
            Keyword ''maxIterCG'' (Constant ''20''),
            Keyword ''print_type'' (Str ''ubc'')]),
      Assign (Name ''inv_prob'')
        (Call (Attribute (Name ''inverse_problem'') ''BaseInvProblem'')
           [Name ''dmis'', Name ''reg'', Name ''opt''])],
     [Assign (Name ''starting_resistivity'') (Name ''starting_model''),
      Expr
        (Call (Name ''print'')
           [Call (Attribute (Name ''np'') ''exp'') [Name ''starting_resistivity'']])],
     [Assign (Name ''starting_beta'')
        (Call (Attribute (Name ''directives'') ''BetaEstimate_ByEig'')
           [Keyword ''beta0_ratio'' (Constant ''1e0'')]),
      Assign (Name ''beta_schedule'')
        (Call (Attribute (Name ''directives'') ''BetaSchedule'')
           [Keyword ''coolingFactor'' (Constant ''2.''),
            Keyword ''coolingRate'' (Constant ''1.'')]),
      Assign (Name ''update_sensitivity_weights'')
        (Call (Attribute (Name ''directives'') ''UpdateSensitivityWeights'') []),
      Assign (Name ''save_iteration'')
        (Call (Attribute (Name ''directives'') ''SaveOutputDictEveryIteration'') []),
      Assign (Name ''target_misfit'')
        (Call (Attribute (Name ''directives'') ''TargetMisfit'')
           [Keyword ''chifact'' (Constant ''1'')]),
      Assign (Name ''directives_list'')
        (ListE
           [Name ''starting_beta'',
            Name ''beta_schedule'',
            Name ''save_iteration'',
            Name ''target_misfit''])],
     [Assign (Name ''inv'')
        (Call (Attribute (Name ''inversion'') ''BaseInversion'')
           [Name ''inv_prob'', Name ''directives_list'']),
      Assign (Name ''recovered_model'')
        (Call (Attribute (Name ''inv'') ''run'') [Name ''starting_model''])],
     [Assign (Name ''res_tmp'')
        (Call (Attribute (Name ''np'') ''array'')
           [ListE
              [Constant ''348.4'',
               Constant ''722.9'',
               Constant ''282'',
               Constant ''100.8'',
               Constant ''51.4'',
               Constant ''170.8'',
               Constant ''31.1'',
               Constant ''184.3'']]),
      Assign (Name ''thick_tmp'')
        (Call (Attribute (Name ''np'') ''array'')
           [ListE
              [Constant ''1.4'',
               Constant ''1.6'',
               Constant ''1.4'',
               Constant ''12.1'',
               Constant ''11.4'',
               Constant ''25.1'',
               Constant ''54.2'']]),
      Assign (Name ''plotting_mesh_tmp'')
        (Call (Name ''TensorMesh'')
           [ListE
              [Subscript (Attribute (Name ''np'') ''r_'')
                 (TupleE [Name ''thick_tmp'', Constant ''200''])],
            Str ''0''])],
     [Assign (TupleE [Name ''fig'', Name ''ax''])
        (Call (Attribute (Name ''plt'') ''subplots'')
           [Constant ''1'',
            Constant ''1'',
            Keyword ''figsize'' (TupleE [Constant ''5'', Constant ''5''])]),
      Assign (Name ''x_min'')
        (Call (Attribute (Name ''np'') ''min'')
           [BinOp (Name ''model_map'') ''*'' (Name ''recovered_model'')]),
      Assign (Name ''x_max'')
        (Call (Attribute (Name ''np'') ''max'')
           [BinOp (Name ''model_map'') ''*'' (Name ''recovered_model'')]),
      Expr
        (Call (Name ''plot_layer'')
           [BinOp (Name ''model_map'') ''*'' (Name ''recovered_model''),
            Name ''mesh'',
            Keyword ''ax'' (Name ''ax''),
            Keyword ''depth_axis'' (Constant ''False'')]),
      Expr
        (Call (Attribute (Name ''ax'') ''set_ylim'')
           [UnaryOp ''-'' (Constant ''300''), Constant ''0'']),
      Expr (Call (Attribute (Name ''ax'') ''set_xlim'') [Constant ''10'', Constant ''5000'']),
      Expr
        (Call (Attribute (Name ''ax'') ''grid'')
           [Constant ''True'',
            Keyword ''which'' (Str ''both''),
            Keyword ''ls'' (Str ''--''),
            Keyword ''c'' (Str ''gray'')])],
     [Assign (TupleE [Name ''fig'', Name ''ax''])
        (Call (Attribute (Name ''plt'') ''subplots'')
           [Constant ''1'',
            Constant ''1'',
            Keyword ''figsize'' (TupleE [Constant ''7'', Constant ''5''])]),
      Expr
        (Call (Attribute (Name ''ax'') ''loglog'')
           [Name ''half_AB_separations'',
            Attribute (Name ''inv_prob'') ''dpred'',
            Str ''k'',
            Keyword ''lw'' (Constant ''2'')]),
      Expr
        (Call (Attribute (Name ''ax'') ''loglog'')
           [Name ''half_AB_separations'',
            Name ''dobs'',
            Str ''kx'',
            Keyword ''lw'' (Constant ''2''),
            Keyword ''ms'' (Constant ''10''),
            Keyword ''mew'' (Constant ''2'')]),
      Expr (Call (Attribute (Name ''ax'') ''set_xlabel'') [Str ''AB/2 (m)'']),
      Expr
        (Call (Attribute (Name ''ax'') ''set_ylabel'')
           [Str (''Apparent Resistivity ($'' @ CHR 0x5C # ''Omega m$)'')]),
      Expr
        (Call (Attribute (Name ''ax'') ''legend'')
           [ListE [Str ''Observed Sounding Curve'', Str ''Predicted Sounding Curve'']]),
      Expr (Call (Attribute (Name ''ax'') ''set_ylim'') [Constant ''50'', Constant ''1000'']),
      Expr
        (Call (Attribute (Name ''ax'') ''grid'')
           [Constant ''True'',
            Keyword ''which'' (Str ''both''),
            Keyword ''ls'' (Str ''--''),
            Keyword ''c'' (Str ''gray'')])],
     [Assign (TupleE [Name ''fig'', Name ''ax''])
        (Call (Attribute (Name ''plt'') ''subplots'')
           [Constant ''1'',
            Constant ''1'',
            Keyword ''figsize'' (TupleE [Constant ''5'', Constant ''5''])]),
      Assign (Name ''x_min'')
        (Call (Attribute (Name ''np'') ''min'')
           [BinOp (Name ''model_map'') ''*'' (Name ''recovered_model'')]),
      Assign (Name ''x_max'')
        (Call (Attribute (Name ''np'') ''max'')
           [BinOp (Name ''model_map'') ''*'' (Name ''recovered_model'')]),
      Expr
        (Call (Name ''plot_layer'')
           [BinOp (Name ''model_map'') ''*'' (Name ''recovered_model''),
            Name ''mesh'',
            Keyword ''ax'' (Name ''ax''),
            Keyword ''depth_axis'' (Constant ''False'')]),
      Expr
        (Call (Name ''plot_layer'')
           [Name ''res_tmp'',
            Name ''plotting_mesh_tmp'',
            Keyword ''ax'' (Name ''ax''),
            Keyword ''depth_axis'' (Constant ''False''),
            Keyword ''color'' (Str ''r'')]),
      Expr
        (Call (Attribute (Name ''ax'') ''legend'')
           [TupleE [Str ''SimPEG'', Str ''Mon State DRD'']]),
      Expr
        (Call (Attribute (Name ''ax'') ''grid'')
           [Constant ''True'',
            Keyword ''which'' (Str ''both''),
            Keyword ''ls'' (Str ''--''),
            Keyword ''c'' (Str ''gray'')]),
      Expr
        (Call (Attribute (Name ''ax'') ''set_ylim'')
           [UnaryOp ''-'' (Constant ''300''), Constant ''0'']),
      Expr (Call (Attribute (Name ''ax'') ''set_xlim'') [Constant ''10'', Constant ''5000''])],
     [Assign (Name ''n_interation'')
        (Call (Name ''len'') [Attribute (Name ''save_iteration'') ''outDict'']),
      Assign (Name ''phi_d'')
        (Call (Attribute (Name ''np'') ''zeros'') [Name ''n_interation'']),
      Assign (Name ''phi_m'')
        (Call (Attribute (Name ''np'') ''zeros'') [Name ''n_interation'']),
      ForS (Name ''ii'')
        (Call (Name ''range'')
           [Constant ''1'', BinOp (Name ''n_interation'') ''+'' (Constant ''1'')])
        [Assign (Subscript (Name ''phi_d'') (BinOp (Name ''ii'') ''-'' (Constant ''1'')))
           (Subscript
              (Subscript (Attribute (Name ''save_iteration'') ''outDict'') (Name ''ii''))
              (Str ''phi_d'')),
         Assign (Subscript (Name ''phi_m'') (BinOp (Name ''ii'') ''-'' (Constant ''1'')))
           (Subscript
              (Subscript (Attribute (Name ''save_iteration'') ''outDict'') (Name ''ii''))
              (Str ''phi_m''))],
      Assign (TupleE [Name ''fig'', Name ''ax''])
        (Call (Attribute (Name ''plt'') ''subplots'')
           [Constant ''1'',
            Constant ''2'',
            Keyword ''figsize'' (TupleE [Constant ''12'', Constant ''5''])]),
      Expr
        (Call (Attribute (Subscript (Name ''ax'') (Constant ''0'')) ''plot'')
           [BinOp (Call (Attribute (Name ''np'') ''arange'') [Name ''n_interation'']) ''+''
              (Constant ''1''),
            Name ''phi_d'',
            Str ''ko-'']),
      Assign (Name ''ax_1'')
        (Call (Attribute (Subscript (Name ''ax'') (Constant ''0'')) ''twinx'') []),
      Expr
        (Call (Attribute (Name ''ax_1'') ''plot'')
           [BinOp (Call (Attribute (Name ''np'') ''arange'') [Name ''n_interation'']) ''+''
              (Constant ''1''),
            Name ''phi_m'',
            Str ''ro-'']),
      Expr
        (Call (Attribute (Subscript (Name ''ax'') (Constant ''0'')) ''set_xlabel'')
           [Str ''Iteration'']),
      Expr
        (Call (Attribute (Subscript (Name ''ax'') (Constant ''0'')) ''set_ylabel'')
           [Str (''$'' @ CHR 0x5C # ''phi_d$''), Keyword ''fontsize'' (Constant ''20'')]),
      Expr
        (Call (Attribute (Name ''ax_1'') ''set_ylabel'')
           [Str (''$'' @ CHR 0x5C # ''phi_m$''),
            Keyword ''fontsize'' (Constant ''20''),
            Keyword ''color'' (Str ''r'')]),
      Expr
        (Call (Attribute (Subscript (Name ''ax'') (Constant ''1'')) ''plot'')
           [Name ''phi_m'', Name ''phi_d'', Str ''ko-'']),
      Expr
        (Call (Attribute (Subscript (Name ''ax'') (Constant ''1'')) ''set_ylabel'')
           [Str (''$'' @ CHR 0x5C # ''phi_d$''), Keyword ''fontsize'' (Constant ''20'')]),
      Expr
        (Call (Attribute (Subscript (Name ''ax'') (Constant ''1'')) ''set_xlabel'')
           [Str (''$'' @ CHR 0x5C # ''phi_m$''), Keyword ''fontsize'' (Constant ''20'')]),
      Expr (Call (Attribute (Name ''plt'') ''tight_layout'') [])],
     []]\<rparr>"

text \<open>\<^verbatim>\<open>notebooks/DC-plot-sounding-data.ipynb\<close>.\<close>

definition plot_sounding_data_nb :: notebook where
  "plot_sounding_data_nb =
   \<lparr>nb_path = ''notebooks/DC-plot-sounding-data.ipynb'',
    nb_title = ''Plotting Schlumberger Sounding Data'',
    nb_cells =
    [[Import ''numpy'' ''np'',
      Import ''pandas'' ''pd'',
      Import ''matplotlib'' ''mpl'',
      Import ''matplotlib.pyplot'' ''plt'',
      Expr
        (Call (Attribute (Attribute (Name ''mpl'') ''rcParams'') ''update'')
           [DictE [DictItem (Str ''font.size'') (Constant ''14'')]])],
     [Assign (Name ''data_filenames'')
        (ListE
           [Str ''./assets/Mawlamyaing_data_locations_1.csv'',
            Str ''./assets/Mawlamyaing_data_locations_2.csv'',
            Str ''./assets/Mawlamyaing_data_locations_3.csv'',
            Str ''./assets/Mawlamyaing_data_locations_4.csv'']),
      Assign (Name ''half_AB_column'') (Str ''AB/2 (m)''),
      Assign (Name ''half_MN_column'') (Str ''MN/2 (m)''),
      Assign (Name ''apparent_resistivity_column'') (ListE [Str ''App. Res. (Ohm m)''])],
     [IfS (Call (Name ''isinstance'') [Name ''data_filenames'', Name ''str''])
        [Assign (Name ''data_filenames'') (ListE [Name ''data_filenames''])]
        [],
      Assign (TupleE [Name ''fig'', Name ''ax''])
        (Call (Attribute (Name ''plt'') ''subplots'')
           [Constant ''1'',
            Constant ''1'',
            Keyword ''figsize'' (TupleE [Constant ''11'', Constant ''7''])]),
      ForS (Name ''ii'')
        (Call (Name ''range'') [Constant ''0'', Call (Name ''len'') [Name ''data_filenames'']])
        [Assign (Name ''df'')
           (Call (Attribute (Name ''pd'') ''read_csv'')
              [Subscript (Name ''data_filenames'') (Name ''ii'')]),
         Assign (Name ''half_AB_separations'')
           (Subscript (Name ''df'') (Name ''half_AB_column'')),
         Assign (Name ''half_MN_separations'')
           (Subscript (Name ''df'') (Name ''half_MN_column'')),
         Assign (Name ''dobs'')
           (Subscript (Name ''df'') (Name ''apparent_resistivity_column'')),
         Expr
           (Call (Attribute (Name ''ax'') ''loglog'')
              [Name ''half_AB_separations'', Name ''dobs'', Keyword ''lw'' (Constant ''2'')])],
      Expr (Call (Attribute (Name ''ax'') ''set_xlabel'') [Str ''AB/2 (m)'']),
      Expr
        (Call (Attribute (Name ''ax'') ''set_ylabel'')
           [Str (''Apparent Resistivity ($'' @ CHR 0x5C # ''Omega m$)'')]),
      Expr (Call (Attribute (Name ''ax'') ''legend'') [Name ''data_filenames'']),
      Expr
        (Call (Attribute (Name ''ax'') ''grid'')
           [Constant ''True'',
            Keyword ''which'' (Str ''both''),
            Keyword ''ls'' (Str ''--''),
            Keyword ''c'' (Str ''gray'')])]]\<rparr>"

text \<open>\<^verbatim>\<open>notebooks/DC-layered-cylinder.ipynb\<close>.\<close>

definition layered_cylinder_nb :: notebook where
  "layered_cylinder_nb =
   \<lparr>nb_path = ''notebooks/DC-layered-cylinder.ipynb'',
    nb_title = ''DC Layered Cylinder'',
    nb_cells =
    [[ImportFrom ''utils.DCWidgetResLayer2_5D'' [(''ResLayer_app'', ''ResLayer_app'')],
      ImportFrom ''IPython.display'' [(''display'', ''display'')],
      Magic ''matplotlib inline'',
      ImportFrom ''matplotlib'' [(''rcParams'', ''rcParams'')],
      Assign (Subscript (Name ''rcParams'') (Str ''font.size'')) (Constant ''16'')],
     [Assign (Name ''app'') (Call (Name ''ResLayer_app'') [])],
     []]\<rparr>"

definition repository :: "notebook list" where
  "repository =
     [parametric_app_nb, smooth_app_nb, smooth_inversion_code_nb, plot_sounding_data_nb,
      layered_cylinder_nb]"

section \<open>Slices of a sorted index array\<close>

lemma series_slice_take_drop: "series_slice xs a b = take (b - a) (drop a xs)"
  by (auto simp: series_slice_def Let_def min_def)

lemma series_slice_append:
  "a \<le> b \<Longrightarrow> b \<le> c \<Longrightarrow> series_slice xs a b @ series_slice xs b c = series_slice xs a c"
proof -
  assume ab: "a \<le> b" and bc: "b \<le> c"
  have "take (c - a) (drop a xs) = take ((b - a) + (c - b)) (drop a xs)"
    using ab bc by simp
  also have "\<dots> = take (b - a) (drop a xs) @ take (c - b) (drop (b - a) (drop a xs))"
    by (rule take_add)
  also have "drop (b - a) (drop a xs) = drop b xs"
    using ab by simp
  finally show ?thesis
    by (simp add: series_slice_take_drop)
qed

lemma series_slice_all: "length xs \<le> b \<Longrightarrow> series_slice xs 0 b = xs"
  by (simp add: series_slice_take_drop)

lemma concat_slices:
  "sorted bs \<Longrightarrow> m < length bs \<Longrightarrow>
   concat (map (\<lambda>i. series_slice xs (bs ! i) (bs ! (i + 1))) [0 ..< m]) =
     series_slice xs (bs ! 0) (bs ! m)"
proof (induction m)
  case 0
  then show ?case by (simp add: series_slice_take_drop)
next
  case (Suc m)
  have le1: "bs ! 0 \<le> bs ! m" using Suc.prems by (simp add: sorted_nth_mono)
  have le2: "bs ! m \<le> bs ! Suc m" using Suc.prems by (simp add: sorted_nth_mono)
  show ?case using Suc le1 le2 by (simp add: series_slice_append)
qed

lemma first_index_less: "v \<in> set xs \<Longrightarrow> first_index xs v < length xs"
  unfolding first_index_def by (induction xs) auto

lemma first_index_nth: "v \<in> set xs \<Longrightarrow> xs ! first_index xs v = v"
  unfolding first_index_def by (induction xs) auto

lemma first_index_le: "j < length xs \<Longrightarrow> first_index xs (xs ! j) \<le> j"
  unfolding first_index_def
proof (induction xs arbitrary: j)
  case Nil
  then show ?case by simp
next
  case (Cons x xs)
  then show ?case by (cases j) auto
qed

lemma first_index_zero: "first_index (x # xs) x = 0"
  by (simp add: first_index_def)

lemma contiguous_between:
  "distinct (remdups_adj xs) \<Longrightarrow> i \<le> m \<Longrightarrow> m \<le> j \<Longrightarrow> j < length xs \<Longrightarrow>
   xs ! i = xs ! j \<Longrightarrow> xs ! m = xs ! i"
proof (induction xs arbitrary: i m j rule: remdups_adj.induct)
  case 1
  then show ?case by simp
next
  case (2 x)
  then show ?case by simp
next
  case (3 x y xs)
  show ?case
  proof (cases "x = y")
    case True
    with 3 have d: "distinct (remdups_adj (x # xs))" by simp
    note IH = "3.IH"(1)[OF True d]
    show ?thesis
    proof (cases m)
      case 0
      then show ?thesis using "3.prems" by simp
    next
      case (Suc m')
      then obtain j' where j: "j = Suc j'" using "3.prems" by (cases j) auto
      show ?thesis
      proof (cases i)
        case 0
        have "(x # xs) ! m' = (x # xs) ! 0"
          using IH[of 0 m' j'] "3.prems" True Suc j 0 by (cases j') auto
        then show ?thesis using True Suc 0 by (cases m') auto
      next
        case (Suc i')
        have "(x # xs) ! m' = (x # xs) ! i'"
          using IH[of i' m' j'] "3.prems" True Suc j \<open>m = Suc m'\<close> by auto
        then show ?thesis using True Suc \<open>m = Suc m'\<close> by auto
      qed
    qed
  next
    case False
    with 3 have d: "distinct (remdups_adj (y # xs))" and nin: "x \<notin> set (y # xs)" by auto
    note IH = "3.IH"(2)[OF False d]
    show ?thesis
    proof (cases i)
      case 0
      have "j = 0"
      proof (rule ccontr)
        assume "j \<noteq> 0"
        then obtain j' where "j = Suc j'" by (cases j) auto
        then have "(x # y # xs) ! j \<in> set (y # xs)"
          using "3.prems"(4) nth_mem[of j' "y # xs"] by simp
        then show False using nin "3.prems" 0 by auto
      qed
      then show ?thesis using "3.prems" by simp
    next
      case (Suc i')
      then obtain m' j' where mj: "m = Suc m'" "j = Suc j'" using "3.prems" by (cases m; cases j) auto
      have "(y # xs) ! m' = (y # xs) ! i'"
        using IH[of i' m' j'] "3.prems" Suc mj by auto
      then show ?thesis using Suc mj by auto
    qed
  qed
qed

section \<open>The index array of the survey\<close>

lemma unique_indices_set: "set (snd (np_unique xs)) = first_index xs ` set xs"
  by (simp add: np_unique_def Let_def)

lemma unique_indices_less: "i \<in> set (snd (np_unique xs)) \<Longrightarrow> i < length xs"
  by (auto simp: unique_indices_set first_index_less)

lemma slice_bounds_length: "length (slice_bounds ab dobs) = n_sources ab + 1"
  by (simp add: slice_bounds_def n_sources_def)

lemma slice_bounds_nth:
  "ii < n_sources ab \<Longrightarrow> slice_bounds ab dobs ! ii = sort (snd (np_unique ab)) ! ii"
  by (simp add: slice_bounds_def n_sources_def nth_append)

lemma slice_bounds_last: "slice_bounds ab dobs ! n_sources ab = length dobs + 1"
  by (simp add: slice_bounds_def n_sources_def nth_append)

lemma slice_bounds_less:
  assumes "ii < n_sources ab"
  shows "slice_bounds ab dobs ! ii < length ab"
proof -
  have "sort (snd (np_unique ab)) ! ii \<in> set (snd (np_unique ab))"
    using assms nth_mem[of ii "sort (snd (np_unique ab))"] by (simp add: n_sources_def)
  then show ?thesis
    using assms by (simp add: slice_bounds_nth unique_indices_less)
qed

lemma slice_bounds_sorted:
  "length dobs = length ab \<Longrightarrow> sorted (slice_bounds ab dobs)"
  by (auto simp: slice_bounds_def sorted_append dest: unique_indices_less)

lemma slice_bounds_first:
  assumes "ab \<noteq> []"
  shows "slice_bounds ab dobs ! 0 = 0"
proof -
  let ?ks = "sort (snd (np_unique ab))"
  obtain x xs where ab: "ab = x # xs" using assms by (cases ab) auto
  have "first_index ab x = 0" by (simp add: ab first_index_zero)
  then have "0 \<in> set ?ks"
    using unique_indices_set[of ab] ab by force
  then obtain p where p: "p < length ?ks" "?ks ! p = 0"
    unfolding in_set_conv_nth by blast
  have "?ks ! 0 \<le> ?ks ! p"
    using p by (intro sorted_nth_mono) auto
  then have "?ks ! 0 = 0" using p by simp
  then show ?thesis using p(1) by (auto simp: slice_bounds_def nth_append)
qed

lemma blocks_concat:
  assumes len: "length dobs = length ab" and xs: "length xs = length ab"
  shows "concat (map (receiver_block xs (slice_bounds ab dobs)) [0 ..< n_sources ab]) = xs"
proof (cases "ab = []")
  case True
  then show ?thesis using xs by (simp add: n_sources_def np_unique_def)
next
  case False
  let ?k = "slice_bounds ab dobs"
  have "concat (map (\<lambda>i. series_slice xs (?k ! i) (?k ! (i + 1))) [0 ..< n_sources ab]) =
          series_slice xs (?k ! 0) (?k ! n_sources ab)"
    by (rule concat_slices) (simp_all add: slice_bounds_sorted len slice_bounds_length)
  also have "\<dots> = series_slice xs 0 (length dobs + 1)"
    by (simp add: slice_bounds_first False slice_bounds_last)
  also have "\<dots> = xs"
    by (rule series_slice_all) (simp add: len xs)
  finally show ?thesis
    unfolding receiver_block_def .
qed

lemma make_source_ok:
  assumes "ii < n_sources ab"
  shows "make_source ab mn (slice_bounds ab dobs) ii =
           Inr (expected_source ab mn (slice_bounds ab dobs) ii)"
  using assms slice_bounds_less[OF assms, of dobs]
  by (simp add: make_source_def array_getitem_def series_getitem_def slice_bounds_length
      expected_source_def receiver_block_def Let_def)

lemma source_loop_ok:
  "list_all (\<lambda>ii. ii < n_sources ab) iis \<Longrightarrow>
   source_loop ab mn (slice_bounds ab dobs) iis =
     Inr (map (expected_source ab mn (slice_bounds ab dobs)) iis)"
  by (induction iis) (simp_all add: make_source_ok)

lemma define_survey_ok:
  "define_survey ab mn dobs =
     Inr (Survey (map (expected_source ab mn (slice_bounds ab dobs)) [0 ..< n_sources ab]))"
  by (simp add: define_survey_def source_loop_ok list_all_iff)

lemma block_member:
  "j \<in> set (receiver_block [0 ..< n] k ii) \<Longrightarrow> k ! ii \<le> j \<and> j < k ! (ii + 1) \<and> j < n"
  by (auto simp: receiver_block_def series_slice_take_drop in_set_conv_nth)

lemma block_below:
  assumes srt: "sorted bs" and f: "f \<in> set (butlast bs)" and ii: "ii + 1 < length bs"
    and fj: "f < bs ! (ii + 1)"
  shows "f \<le> bs ! ii"
proof -
  obtain p where p: "p < length bs" "bs ! p = f"
    using f in_set_butlastD[OF f] by (auto simp: in_set_conv_nth)
  show ?thesis
  proof (cases "p \<le> ii")
    case True
    then show ?thesis using sorted_nth_mono[OF srt True] ii p by simp
  next
    case False
    then have "ii + 1 \<le> p" by simp
    then have "bs ! (ii + 1) \<le> bs ! p" using sorted_nth_mono[OF srt _ p(1)] by simp
    then show ?thesis using fj p by simp
  qed
qed

lemma block_constant:
  assumes len: "length dobs = length ab" and c: "contiguous ab" and ii: "ii < n_sources ab"
    and j: "j \<in> set (receiver_block [0 ..< length dobs] (slice_bounds ab dobs) ii)"
  shows "ab ! j = ab ! (slice_bounds ab dobs ! ii)"
proof -
  let ?k = "slice_bounds ab dobs"
  from block_member[OF j] have lo: "?k ! ii \<le> j" and hi: "j < ?k ! (ii + 1)" and jn: "j < length ab"
    using len by auto
  let ?f = "first_index ab (ab ! j)"
  have fle: "?f \<le> j" using jn by (rule first_index_le)
  have fval: "ab ! ?f = ab ! j" using jn by (simp add: first_index_nth)
  have "?f \<in> set (snd (np_unique ab))"
    using jn by (simp add: unique_indices_set)
  then have "?f \<in> set (butlast ?k)" by (simp add: slice_bounds_def)
  then have "?f \<le> ?k ! ii"
    using fle hi ii by (intro block_below) (simp_all add: slice_bounds_sorted len slice_bounds_length)
  then have "ab ! (?k ! ii) = ab ! ?f"
    using c lo jn fval unfolding contiguous_def
    by (intro contiguous_between[of ab ?f "?k ! ii" j]) simp_all
  then show ?thesis using fval by simp
qed

text \<open>
  Claim C9. For a data file whose rows with equal AB/2 values are contiguous, the
  survey construction raises nothing and returns one source per distinct AB/2
  value, the source \<open>ii\<close> holding the rows \<^verbatim>\<open>k[ii]:k[ii+1]\<close>; these slices,
  taken over \<open>ii = 0 .. n_sources - 1\<close>, list every row index \<open>0 .. len(dobs) - 1\<close>
  exactly once and in order, so every datum lies in exactly one receiver block;
  the last bound is \<open>len(dobs) + 1\<close>, which as a subscript of \<open>dobs\<close> would raise
  IndexError but as a slice bound is clamped; and every row of a block has the
  AB/2 value of the block's source.
\<close>

theorem survey_blocks_partition_rows:
  assumes "length half_MN_separations = length half_AB_separations"
    and "length dobs = length half_AB_separations"
    and "contiguous half_AB_separations"
  shows "define_survey half_AB_separations half_MN_separations dobs =
           Inr (Survey (map (expected_source half_AB_separations half_MN_separations
                               (slice_bounds half_AB_separations dobs))
                          [0 ..< n_sources half_AB_separations]))
       \<and> concat (map (receiver_block [0 ..< length dobs] (slice_bounds half_AB_separations dobs))
                   [0 ..< n_sources half_AB_separations]) = [0 ..< length dobs]
       \<and> concat (map (receiver_block half_MN_separations (slice_bounds half_AB_separations dobs))
                   [0 ..< n_sources half_AB_separations]) = half_MN_separations
       \<and> n_sources half_AB_separations = card (set half_AB_separations)
       \<and> slice_bounds half_AB_separations dobs ! n_sources half_AB_separations = length dobs + 1
       \<and> array_getitem dobs (length dobs + 1) = Inl IndexError
       \<and> list_all (\<lambda>ii. list_all (\<lambda>j. half_AB_separations ! j =
                                      half_AB_separations ! (slice_bounds half_AB_separations dobs ! ii))
                             (receiver_block [0 ..< length dobs]
                                (slice_bounds half_AB_separations dobs) ii))
                  [0 ..< n_sources half_AB_separations]"
proof -
  have rows: "concat (map (receiver_block [0 ..< length dobs] (slice_bounds half_AB_separations dobs))
                   [0 ..< n_sources half_AB_separations]) = [0 ..< length dobs]"
    by (rule blocks_concat) (simp_all add: assms)
  have mn: "concat (map (receiver_block half_MN_separations (slice_bounds half_AB_separations dobs))
                   [0 ..< n_sources half_AB_separations]) = half_MN_separations"
    by (rule blocks_concat) (simp_all add: assms)
  have const: "list_all (\<lambda>ii. list_all (\<lambda>j. half_AB_separations ! j =
                                      half_AB_separations ! (slice_bounds half_AB_separations dobs ! ii))
                             (receiver_block [0 ..< length dobs]
                                (slice_bounds half_AB_separations dobs) ii))
                  [0 ..< n_sources half_AB_separations]"
    unfolding list_all_iff using block_constant[OF assms(2,3)] by auto
  have card: "n_sources half_AB_separations = card (set half_AB_separations)"
    by (simp add: n_sources_def np_unique_def Let_def length_remdups_card_conv)
  show ?thesis
    using rows mn const
    by (simp add: define_survey_ok slice_bounds_last array_getitem_def card[symmetric])
qed

theorem survey_blocks_partition_rows_witness:
  "length [1, 2, 0.5, 0.5, 1 :: real] = length [5, 5, 1, 2, 2 :: real]
   \<and> length [100, 90, 80, 70, 60 :: real] = length [5, 5, 1, 2, 2 :: real]
   \<and> contiguous [5, 5, 1, 2, 2]
   \<and> slice_bounds [5, 5, 1, 2, 2] [100, 90, 80, 70, 60] = [0, 2, 3, 6]
   \<and> define_survey [5, 5, 1, 2, 2] [1, 2, 0.5, 0.5, 1] [100, 90, 80, 70, 60] =
       Inr (Survey
         [Sources_Dipole
            [Receivers_Dipole [(- 1, 0, 0), (- 2, 0, 0)] [(1, 0, 0), (2, 0, 0)]]
            (- 5, 0, 0) (5, 0, 0),
          Sources_Dipole
            [Receivers_Dipole [(- 0.5, 0, 0)] [(0.5, 0, 0)]]
            (- 1, 0, 0) (1, 0, 0),
          Sources_Dipole
            [Receivers_Dipole [(- 0.5, 0, 0), (- 1, 0, 0)] [(0.5, 0, 0), (1, 0, 0)]]
            (- 2, 0, 0) (2, 0, 0)])
   \<and> map (receiver_block [0 ..< 5] [0, 2, 3, 6]) [0 ..< 3] = [[0, 1], [2], [3, 4]]"
proof -
  have h1: "length [1, 2, 0.5, 0.5, 1 :: real] = length [5, 5, 1, 2, 2 :: real]" by simp
  have h2: "length [100, 90, 80, 70, 60 :: real] = length [5, 5, 1, 2, 2 :: real]" by simp
  have h3: "contiguous [5, 5, 1, 2, 2]" by (simp add: contiguous_def)
  have k: "slice_bounds [5, 5, 1, 2, 2] [100, 90, 80, 70, 60] = [0, 2, 3, 6]"
    by (simp add: slice_bounds_def np_unique_def first_index_def)
  have n: "n_sources [5, 5, 1, 2, 2] = 3"
    by (simp add: n_sources_def np_unique_def first_index_def)
  have u: "[0 ..< 3] = [0, 1, 2]" "[0 ..< 5] = [0, 1, 2, 3, 4]"
    by (simp_all add: upt_conv_Cons)
  note t = survey_blocks_partition_rows[OF h1 h2 h3]
  show ?thesis
    using t h3 unfolding k n u
    by (simp add: expected_source_def receiver_block_def series_slice_def with_zero_columns_def)
qed

section \<open>Properties of the uncertainties\<close>




section \<open>What the notebooks import, define and call\<close>

text \<open>
  Claim C1, as stated, fails: the notebook DC-1d-smooth-inversion-code imports
  nothing from \<^verbatim>\<open>utils\<close> and calls SimPEG, discretize and numpy itself, and the
  notebook DC-plot-sounding-data imports nothing from \<^verbatim>\<open>utils\<close> either.
\<close>

theorem notebooks_wiring_counterexample:
  "utils_imports smooth_inversion_code_nb = []
   \<and> library_calls smooth_inversion_code_nb numerical_libraries \<noteq> []
   \<and> \<not> app_wired smooth_inversion_code_nb
   \<and> utils_imports plot_sounding_data_nb = []
   \<and> \<not> app_wired plot_sounding_data_nb"
  by code_simp

text \<open>
  Claim C1, amended. Three of the five notebooks (the two app notebooks of
  \<^verbatim>\<open>unnamed/part_000\<close> and DC-layered-cylinder) are wired from apps: each imports one
  app class from the \<^verbatim>\<open>utils\<close> package, instantiates it, the two inversion
  notebooks then call its \<^verbatim>\<open>interact_*\<close> methods, and none of the three calls a
  numerical library. The other two import nothing from \<^verbatim>\<open>utils\<close>:
  DC-1d-smooth-inversion-code calls SimPEG, discretize and numpy inline, and
  DC-plot-sounding-data imports numpy, pandas and matplotlib only.
\<close>

theorem notebooks_wiring:
  "map app_wired repository = [True, True, False, False, True]
   \<and> map (\<lambda>nb. map snd (utils_imports nb)) repository =
       [[''DC1D3LayerApp''], [''DC1DInversionApp''], [], [], [''ResLayer_app'']]
   \<and> map (\<lambda>nb. map dotted (called nb))
         [parametric_app_nb, smooth_app_nb, layered_cylinder_nb] =
       [[''DC1D3LayerApp'', ''dc_app.interact_load_obs'', ''dc_app.interact_1d_layer'',
         ''dc_app.interact_run_inversion'', ''dc_app.interact_plot_inversion_results''],
        [''DC1DInversionApp'', ''dc_app.interact_load_obs'', ''dc_app.interact_plot_obs_data'',
         ''dc_app.interact_set_mesh'', ''dc_app.interact_set_uncertainty'',
         ''dc_app.interact_run_inversion'', ''dc_app.interact_plot_inversion_results'',
         ''dc_app.interact_run_doi'', ''dc_app.interact_plot_doi_results''],
        [''ResLayer_app'']]
   \<and> map (\<lambda>nb. remdups (map (\<lambda>ma. top_package (fst ma)) (nb_imports nb))) repository =
       [[''utils''], [''utils''],
        [''os'', ''numpy'', ''matplotlib'', ''pandas'', ''discretize'', ''SimPEG''],
        [''numpy'', ''pandas'', ''matplotlib''],
        [''utils'', ''IPython'', ''matplotlib'']]
   \<and> map (\<lambda>nb. length (library_calls nb numerical_libraries)) repository = [0, 0, 45, 0, 0]
   \<and> map dotted (library_calls smooth_inversion_code_nb [''SimPEG'', ''discretize'']) =
       [''dc.receivers.Dipole'', ''dc.sources.Dipole'', ''dc.Survey'', ''data.Data'', ''TensorMesh'',
        ''maps.IdentityMap'', ''maps.ExpMap'', ''dc.simulation_1d.DCSimulation_1D'',
        ''data_misfit.L2DataMisfit'', ''regularization.Simple'',
        ''optimization.InexactGaussNewton'', ''inverse_problem.BaseInvProblem'',
        ''directives.BetaEstimate_ByEig'', ''directives.BetaSchedule'',
        ''directives.UpdateSensitivityWeights'', ''directives.SaveOutputDictEveryIteration'',
        ''directives.TargetMisfit'', ''inversion.BaseInversion'', ''TensorMesh'', ''plot_layer'',
        ''plot_layer'', ''plot_layer'']"
  by code_simp






end
